theory Spec2Isabelle
  imports Main "HOL-Library.Word"
begin

section \<open>GoclDevice: the object store and the native layer\<close>

text \<open>
  The development embeds \<^verbatim>\<open>src/gocl/gocl-device.c\<close>. A \<^verbatim>\<open>GObject *\<close> is an address
  into an explicit store of reference-counted instances; \<^verbatim>\<open>NULL\<close> is \<open>None\<close>.
  The store is a list indexed by address, so a new instance always gets an address that
  no pointer held so far refers to. A slot holding \<open>None\<close> is an instance whose last
  reference was dropped; a pointer to it, like a pointer beyond the store, refers to no
  object. \<^verbatim>\<open>gsize\<close> is the unsigned 64-bit word of an LP64 platform, \<^verbatim>\<open>cl_int\<close> and the
  code of a \<^verbatim>\<open>GError\<close> are integers (no arithmetic is done on either).
\<close>

type_synonym objref = nat
type_synonym gpointer = "objref option"
type_synonym cl_device_id = "nat option"
type_synonym gsize = "64 word"
type_synonym cl_int = int

text \<open>A \<^verbatim>\<open>GError\<close>: its domain and its code (the message is left to the caller).\<close>

record GError =
  error_domain :: string
  error_code :: int

text \<open>\<^verbatim>\<open>struct _GoclDevicePrivate\<close>, field by field.\<close>

record GoclDevicePrivate =
  priv_context :: gpointer
  priv_device_id :: cl_device_id
  priv_max_work_group_size :: gsize
  priv_queue :: gpointer

text \<open>
  The instances the device code meets: a \<^verbatim>\<open>GoclContext\<close> (opaque here), a
  \<^verbatim>\<open>GoclDevice\<close> with its private structure, and a \<^verbatim>\<open>GoclQueue\<close> with the
  \<^verbatim>\<open>"device"\<close> property it was constructed with.
\<close>

datatype g_instance =
    Context_instance
  | Device_instance GoclDevicePrivate
  | Queue_instance gpointer

record gobject =
  ref_count :: nat
  inst :: g_instance

text \<open>
  The state of the process as far as the device code can observe it: the store, and how
  often the two fallible external calls have been made so far. The last field is what
  an unchecked \<^verbatim>\<open>self->priv\<close> finds behind an instance that is not a device:
  the structs of the other classes keep their \<^verbatim>\<open>priv\<close> pointer where \<^verbatim>\<open>GoclDevice\<close> keeps
  its own (\<^verbatim>\<open>struct _GoclContext\<close> in \<^verbatim>\<open>gocl-context.h\<close>), so the read succeeds, and
  \<open>foreign_priv w a\<close> is the private block of the instance at \<open>a\<close> as it reads and is
  written through \<^verbatim>\<open>struct _GoclDevicePrivate\<close>.
\<close>

record world =
  heap :: "gobject option list"
  cl_queries :: nat
  queue_news :: nat
  foreign_priv :: "objref \<Rightarrow> GoclDevicePrivate"

text \<open>
  The native layer. \<^verbatim>\<open>clGetDeviceInfo\<close> answers its \<open>k\<close>-th call on a device handle with
  a status and, when it stores through the pointer it was given, the value stored.
  The constructor of \<^verbatim>\<open>GoclQueue\<close> (run by \<^verbatim>\<open>g_initable_new\<close>) answers its \<open>k\<close>-th call
  for a device with \<open>None\<close> on success and the error it sets otherwise.
\<close>

record cl_reply =
  cl_status :: cl_int
  cl_written :: "gsize option"

record native =
  clGetDeviceInfo :: "nat \<Rightarrow> cl_device_id \<Rightarrow> cl_reply"
  queue_init :: "nat \<Rightarrow> objref \<Rightarrow> GError option"

datatype fault = Invalid_pointer

subsection \<open>The store\<close>

definition heap_at :: "world \<Rightarrow> objref \<Rightarrow> gobject option" where
  "heap_at w a = (if a < length (heap w) then heap w ! a else None)"

definition heap_put :: "world \<Rightarrow> objref \<Rightarrow> gobject option \<Rightarrow> world" where
  "heap_put w a v = w\<lparr>heap := (heap w)[a := v]\<rparr>"

definition obj_refs :: "world \<Rightarrow> objref \<Rightarrow> nat" where
  "obj_refs w a = (case heap_at w a of None \<Rightarrow> 0 | Some ob \<Rightarrow> ref_count ob)"

text \<open>A new instance starts with one reference, owned by whoever constructed it.\<close>

definition g_object_alloc :: "world \<Rightarrow> g_instance \<Rightarrow> objref \<times> world" where
  "g_object_alloc w i =
     (length (heap w), w\<lparr>heap := heap w @ [Some \<lparr>ref_count = 1, inst = i\<rparr>]\<rparr>)"

text \<open>
  \<^verbatim>\<open>g_object_ref\<close> returns its argument with one more reference; on something that is
  not a live object it fails its check and returns \<^verbatim>\<open>NULL\<close>.
\<close>

definition g_object_ref :: "world \<Rightarrow> objref \<Rightarrow> gpointer \<times> world" where
  "g_object_ref w a =
     (case heap_at w a of
        None \<Rightarrow> (None, w)
      | Some ob \<Rightarrow> (Some a, heap_put w a (Some (ob\<lparr>ref_count := Suc (ref_count ob)\<rparr>))))"

text \<open>
  \<^verbatim>\<open>g_object_unref\<close> drops one reference; the instance is gone with its last one. The
  device code calls it on contexts and queues only. What the dispose handlers of
  \<^verbatim>\<open>GoclContext\<close> and \<^verbatim>\<open>GoclQueue\<close> do at that moment lies in other files and is not part
  of the store's step; the handler of \<^verbatim>\<open>GoclDevice\<close> is \<^verbatim>\<open>gocl_device_dispose\<close> below.
\<close>

definition g_object_unref :: "world \<Rightarrow> objref \<Rightarrow> world" where
  "g_object_unref w a =
     (case heap_at w a of
        None \<Rightarrow> w
      | Some ob \<Rightarrow>
          if ref_count ob \<le> 1 then heap_put w a None
          else heap_put w a (Some (ob\<lparr>ref_count := ref_count ob - 1\<rparr>)))"

text \<open>\<^verbatim>\<open>self->priv\<close> of the device at an address, when a device lives there.\<close>

definition device_at :: "world \<Rightarrow> objref \<Rightarrow> GoclDevicePrivate option" where
  "device_at w a =
     (case heap_at w a of
        None \<Rightarrow> None
      | Some ob \<Rightarrow> (case inst ob of Device_instance p \<Rightarrow> Some p | _ \<Rightarrow> None))"

text \<open>\<^verbatim>\<open>GOCL_IS_DEVICE (self)\<close>: false for \<^verbatim>\<open>NULL\<close> and for anything that is not a device.\<close>

definition GOCL_IS_DEVICE :: "world \<Rightarrow> gpointer \<Rightarrow> bool" where
  "GOCL_IS_DEVICE w self =
     (case self of None \<Rightarrow> False | Some a \<Rightarrow> device_at w a \<noteq> None)"

text \<open>An assignment to fields of \<^verbatim>\<open>self->priv\<close>, read and written through the store.\<close>

definition upd_priv ::
  "world \<Rightarrow> objref \<Rightarrow> (GoclDevicePrivate \<Rightarrow> GoclDevicePrivate) \<Rightarrow> world" where
  "upd_priv w a f =
     (case heap_at w a of
        None \<Rightarrow> w
      | Some ob \<Rightarrow>
          (case inst ob of
             Device_instance p \<Rightarrow> heap_put w a (Some (ob\<lparr>inst := Device_instance (f p)\<rparr>))
           | _ \<Rightarrow> w))"

text \<open>
  \<^verbatim>\<open>self->priv\<close> read, and a field of it assigned, with no instance check before: on a
  device these are \<open>device_at\<close> and \<open>upd_priv\<close>; on a live instance of another class
  they reach that instance's private block; on \<^verbatim>\<open>NULL\<close> or a pointer to no live object
  there is nothing to read.
\<close>

definition priv_unchecked :: "world \<Rightarrow> objref \<Rightarrow> GoclDevicePrivate option" where
  "priv_unchecked w a =
     (case heap_at w a of
        None \<Rightarrow> None
      | Some ob \<Rightarrow>
          (case inst ob of
             Device_instance p \<Rightarrow> Some p
           | _ \<Rightarrow> Some (foreign_priv w a)))"

definition upd_priv_unchecked ::
  "world \<Rightarrow> objref \<Rightarrow> (GoclDevicePrivate \<Rightarrow> GoclDevicePrivate) \<Rightarrow> world" where
  "upd_priv_unchecked w a f =
     (case heap_at w a of
        None \<Rightarrow> w
      | Some ob \<Rightarrow>
          (case inst ob of
             Device_instance p \<Rightarrow> upd_priv w a f
           | _ \<Rightarrow> w\<lparr>foreign_priv := (foreign_priv w)(a := f (foreign_priv w a))\<rparr>))"

subsection \<open>Error translation\<close>

abbreviation (input) CL_SUCCESS :: cl_int where
  "CL_SUCCESS \<equiv> 0"

text \<open>
  Modelled from the spec: \<^verbatim>\<open>gocl_error_check_opencl\<close> lives in \<^verbatim>\<open>gocl-error.c\<close>, which
  is not among the sources. Section 4.1 of the specification: given a native status code
  it returns whether the code represents failure, and on failure fills the output error
  with the domain tag \<^verbatim>\<open>compute-api\<close> and the numeric code. The result pairs the
  returned flag with the error written through a non-\<^verbatim>\<open>NULL\<close> \<^verbatim>\<open>GError **\<close>.
\<close>

definition gocl_error_check_opencl :: "cl_int \<Rightarrow> bool \<times> GError option" where
  "gocl_error_check_opencl err_code =
     (if err_code \<noteq> CL_SUCCESS
      then (True, Some \<lparr>error_domain = ''compute-api'', error_code = err_code\<rparr>)
      else (False, None))"

section \<open>The device class\<close>

subsection \<open>Properties and construction\<close>

abbreviation (input) PROP_0 :: nat where "PROP_0 \<equiv> 0"
abbreviation (input) PROP_CONTEXT :: nat where "PROP_CONTEXT \<equiv> 1"
abbreviation (input) PROP_ID :: nat where "PROP_ID \<equiv> 2"

datatype GValue =
    G_value_object gpointer
  | G_value_pointer "nat option"

datatype GParamFlag =
    G_PARAM_READABLE
  | G_PARAM_WRITABLE
  | G_PARAM_CONSTRUCT
  | G_PARAM_CONSTRUCT_ONLY
  | G_PARAM_STATIC_STRINGS

abbreviation (input) G_PARAM_READWRITE :: "GParamFlag list" where
  "G_PARAM_READWRITE \<equiv> [G_PARAM_READABLE, G_PARAM_WRITABLE]"

text \<open>
  \<^verbatim>\<open>gocl_device_class_init\<close>: the properties it installs, each with its flags.
\<close>

definition gocl_device_class_init :: "(nat \<times> GParamFlag list) list" where
  "gocl_device_class_init =
     [(PROP_CONTEXT, G_PARAM_READWRITE @ [G_PARAM_CONSTRUCT_ONLY, G_PARAM_STATIC_STRINGS]),
      (PROP_ID, G_PARAM_READWRITE @ [G_PARAM_CONSTRUCT_ONLY, G_PARAM_STATIC_STRINGS])]"

text \<open>\<^verbatim>\<open>gocl_device_init\<close>: the two caches start empty.\<close>

definition gocl_device_init :: "world \<Rightarrow> objref \<Rightarrow> fault + world" where
  "gocl_device_init w self =
     (case device_at w self of
        None \<Rightarrow> Inl Invalid_pointer
      | Some _ \<Rightarrow>
          Inr (upd_priv w self (\<lambda>p. p\<lparr>priv_max_work_group_size := 0, priv_queue := None\<rparr>)))"

text \<open>
  \<^verbatim>\<open>g_value_dup_object\<close> takes a new reference on the object the value holds
  (\<^verbatim>\<open>NULL\<close> for a value holding none); \<^verbatim>\<open>g_value_get_pointer\<close> reads a pointer value.
\<close>

definition g_value_dup_object :: "world \<Rightarrow> GValue \<Rightarrow> gpointer \<times> world" where
  "g_value_dup_object w v =
     (case v of
        G_value_object (Some a) \<Rightarrow> g_object_ref w a
      | _ \<Rightarrow> (None, w))"

definition g_value_get_pointer :: "GValue \<Rightarrow> nat option" where
  "g_value_get_pointer v = (case v of G_value_pointer p \<Rightarrow> p | _ \<Rightarrow> None)"

text \<open>\<^verbatim>\<open>set_property\<close>: the switch on the property id, in the order of the source.\<close>

definition set_property :: "world \<Rightarrow> objref \<Rightarrow> nat \<Rightarrow> GValue \<Rightarrow> fault + world" where
  "set_property w obj prop_id v =
     (case device_at w obj of
        None \<Rightarrow> Inl Invalid_pointer
      | Some _ \<Rightarrow>
          if prop_id = PROP_CONTEXT then
            (case g_value_dup_object w v of
               (c, w1) \<Rightarrow> Inr (upd_priv w1 obj (\<lambda>p. p\<lparr>priv_context := c\<rparr>)))
          else if prop_id = PROP_ID then
            Inr (upd_priv w obj (\<lambda>p. p\<lparr>priv_device_id := g_value_get_pointer v\<rparr>))
          else Inr w)"

text \<open>
  \<^verbatim>\<open>g_object_new (GOCL_TYPE_DEVICE, "context", ctx, "id", id, NULL)\<close>: the instance is
  allocated with zeroed private data, \<^verbatim>\<open>gocl_device_init\<close> runs, and each construct
  property is handed to \<^verbatim>\<open>set_property\<close> once.
\<close>

definition g_object_new_GoclDevice ::
  "world \<Rightarrow> gpointer \<Rightarrow> cl_device_id \<Rightarrow> fault + (objref \<times> world)" where
  "g_object_new_GoclDevice w ctx dev =
     (case g_object_alloc w
             (Device_instance \<lparr>priv_context = None, priv_device_id = None,
                priv_max_work_group_size = 0, priv_queue = None\<rparr>) of
        (d, w0) \<Rightarrow>
          (case gocl_device_init w0 d of
             Inl f \<Rightarrow> Inl f
           | Inr w1 \<Rightarrow>
               (case set_property w1 d PROP_CONTEXT (G_value_object ctx) of
                  Inl f \<Rightarrow> Inl f
                | Inr w2 \<Rightarrow>
                    (case set_property w2 d PROP_ID (G_value_pointer dev) of
                       Inl f \<Rightarrow> Inl f
                     | Inr w3 \<Rightarrow> Inr (d, w3)))))"

text \<open>
  \<^verbatim>\<open>g_object_set\<close> on a constructed object: GObject refuses a property that is unknown,
  not writable or construct-only, and calls \<^verbatim>\<open>set_property\<close> otherwise.
\<close>

definition g_object_set_property :: "world \<Rightarrow> objref \<Rightarrow> nat \<Rightarrow> GValue \<Rightarrow> fault + world" where
  "g_object_set_property w obj prop_id v =
     (case map_of gocl_device_class_init prop_id of
        None \<Rightarrow> Inr w
      | Some flags \<Rightarrow>
          if G_PARAM_WRITABLE \<notin> set flags \<or> G_PARAM_CONSTRUCT_ONLY \<in> set flags then Inr w
          else set_property w obj prop_id v)"

text \<open>
  \<^verbatim>\<open>g_value_set_object\<close> stores an object in a value, which then holds a reference of
  its own; \<^verbatim>\<open>g_value_set_pointer\<close> stores a plain pointer.
\<close>

definition g_value_set_object :: "world \<Rightarrow> gpointer \<Rightarrow> GValue \<times> world" where
  "g_value_set_object w v_object =
     (case v_object of
        None \<Rightarrow> (G_value_object None, w)
      | Some a \<Rightarrow> (case g_object_ref w a of (r, w1) \<Rightarrow> (G_value_object r, w1)))"

definition g_value_set_pointer :: "nat option \<Rightarrow> GValue" where
  "g_value_set_pointer v_pointer = G_value_pointer v_pointer"

text \<open>
  \<^verbatim>\<open>get_property\<close>: the value it fills in, \<open>None\<close> where the switch falls to its
  default branch and leaves the value as it was.
\<close>

definition get_property :: "world \<Rightarrow> objref \<Rightarrow> nat \<Rightarrow> fault + (GValue option \<times> world)" where
  "get_property w obj prop_id =
     (case device_at w obj of
        None \<Rightarrow> Inl Invalid_pointer
      | Some p \<Rightarrow>
          if prop_id = PROP_CONTEXT then
            (case g_value_set_object w (priv_context p) of (v, w1) \<Rightarrow> Inr (Some v, w1))
          else if prop_id = PROP_ID then
            Inr (Some (g_value_set_pointer (priv_device_id p)), w)
          else Inr (None, w))"

text \<open>
  \<^verbatim>\<open>g_object_get\<close>: GObject refuses a property that is unknown or not readable, and calls
  \<^verbatim>\<open>get_property\<close> otherwise.
\<close>

definition g_object_get_property ::
  "world \<Rightarrow> objref \<Rightarrow> nat \<Rightarrow> fault + (GValue option \<times> world)" where
  "g_object_get_property w obj prop_id =
     (case map_of gocl_device_class_init prop_id of
        None \<Rightarrow> Inr (None, w)
      | Some flags \<Rightarrow>
          if G_PARAM_READABLE \<notin> set flags then Inr (None, w)
          else get_property w obj prop_id)"

subsection \<open>Disposal\<close>

text \<open>The chain-up to the parent class: \<^verbatim>\<open>GObject\<close>'s own dispose touches no field here.\<close>

definition g_object_real_dispose :: "world \<Rightarrow> objref \<Rightarrow> world" where
  "g_object_real_dispose w obj = w"

definition gocl_device_dispose :: "world \<Rightarrow> objref \<Rightarrow> fault + world" where
  "gocl_device_dispose w obj =
     (case device_at w obj of
        None \<Rightarrow> Inl Invalid_pointer
      | Some p \<Rightarrow>
          (let w1 = (case priv_context p of
                       None \<Rightarrow> w
                     | Some c \<Rightarrow>
                         upd_priv (g_object_unref w c) obj (\<lambda>p. p\<lparr>priv_context := None\<rparr>))
           in case device_at w1 obj of
                None \<Rightarrow> Inl Invalid_pointer
              | Some p1 \<Rightarrow>
                  (let w2 = (case priv_queue p1 of
                               None \<Rightarrow> w1
                             | Some q \<Rightarrow>
                                 upd_priv (g_object_unref w1 q) obj
                                   (\<lambda>p. p\<lparr>priv_queue := None\<rparr>))
                   in Inr (g_object_real_dispose w2 obj))))"

subsection \<open>The public functions\<close>

text \<open>
  The first three start with \<^verbatim>\<open>g_return_val_if_fail (GOCL_IS_DEVICE (self), ...)\<close>: the two
  outer \<open>None\<close> branches (the warning the macro logs is not part of the state). Results
  carry the error stored through \<^verbatim>\<open>error\<close> (when the caller passed a place for it) and
  the state after the call.

  In \<^verbatim>\<open>gocl_device_get_max_work_group_size\<close> the native call is handed the address of
  \<^verbatim>\<open>self->priv->max_work_group_size\<close>: \<open>p1\<close> is the private structure as the call
  leaves it, and the value returned on success is read from it.
\<close>

definition gocl_device_get_id :: "world \<Rightarrow> gpointer \<Rightarrow> cl_device_id" where
  "gocl_device_get_id w self =
     (case self of
        None \<Rightarrow> None
      | Some a \<Rightarrow> (case device_at w a of None \<Rightarrow> None | Some p \<Rightarrow> priv_device_id p))"

definition gocl_device_get_context :: "world \<Rightarrow> gpointer \<Rightarrow> gpointer" where
  "gocl_device_get_context w device =
     (case device of
        None \<Rightarrow> None
      | Some a \<Rightarrow> (case device_at w a of None \<Rightarrow> None | Some p \<Rightarrow> priv_context p))"

definition gocl_device_get_max_work_group_size ::
  "native \<Rightarrow> world \<Rightarrow> gpointer \<Rightarrow> gsize \<times> GError option \<times> world" where
  "gocl_device_get_max_work_group_size N w self =
     (case self of
        None \<Rightarrow> (0, None, w)
      | Some a \<Rightarrow>
          (case device_at w a of
             None \<Rightarrow> (0, None, w)
           | Some p \<Rightarrow>
               if priv_max_work_group_size p > 0 then (priv_max_work_group_size p, None, w)
               else
                 (let r = clGetDeviceInfo N (cl_queries w) (priv_device_id p);
                      p1 = (case cl_written r of
                              None \<Rightarrow> p
                            | Some v \<Rightarrow> p\<lparr>priv_max_work_group_size := v\<rparr>);
                      w1 = (upd_priv w a (\<lambda>_. p1))\<lparr>cl_queries := Suc (cl_queries w)\<rparr>
                  in case gocl_error_check_opencl (cl_status r) of
                       (True, err) \<Rightarrow> (0, err, w1)
                     | (False, _) \<Rightarrow> (priv_max_work_group_size p1, None, w1))))"

text \<open>
  \<^verbatim>\<open>g_initable_new (GOCL_TYPE_QUEUE, NULL, error, "device", self, NULL)\<close>: \<^verbatim>\<open>NULL\<close> and
  the error when the queue's initialisation fails, a new queue holding one reference
  otherwise. What the queue's own property setter does with the device it is given lies
  in \<^verbatim>\<open>gocl-queue.c\<close>; the store records the property and nothing else.
\<close>

definition g_initable_new_GoclQueue ::
  "native \<Rightarrow> world \<Rightarrow> objref \<Rightarrow> gpointer \<times> GError option \<times> world" where
  "g_initable_new_GoclQueue N w dev =
     (let w1 = w\<lparr>queue_news := Suc (queue_news w)\<rparr>
      in case queue_init N (queue_news w) dev of
           Some e \<Rightarrow> (None, Some e, w1)
         | None \<Rightarrow>
             (case g_object_alloc w1 (Queue_instance (Some dev)) of
                (q, w2) \<Rightarrow> (Some q, None, w2)))"

text \<open>
  \<^verbatim>\<open>gocl_device_get_default_queue\<close> reads \<^verbatim>\<open>self->priv\<close> with no check before it. On
  \<^verbatim>\<open>NULL\<close>, or a pointer to no live object, the read is an invalid memory access. On a
  live instance of another class it goes on as it does on a device, with that instance's
  private block: it returns what it finds in the place of the queue field, or runs the
  queue constructor with the instance as the device and stores the result there.
\<close>

definition gocl_device_get_default_queue ::
  "native \<Rightarrow> world \<Rightarrow> gpointer \<Rightarrow> fault + (gpointer \<times> GError option \<times> world)" where
  "gocl_device_get_default_queue N w self =
     (case self of
        None \<Rightarrow> Inl Invalid_pointer
      | Some a \<Rightarrow>
          (case priv_unchecked w a of
             None \<Rightarrow> Inl Invalid_pointer
           | Some p \<Rightarrow>
               (case priv_queue p of
                  Some q \<Rightarrow> Inr (Some q, None, w)
                | None \<Rightarrow>
                    (case g_initable_new_GoclQueue N w a of
                       (q, err, w1) \<Rightarrow>
                         Inr (q, err,
                              upd_priv_unchecked w1 a (\<lambda>p. p\<lparr>priv_queue := q\<rparr>))))))"

section \<open>Clients, traces and the native contract\<close>

text \<open>
  What a client can do to a constructed device without dropping it: the four public
  functions, \<^verbatim>\<open>g_object_set\<close> and \<^verbatim>\<open>g_object_get\<close>. A trace of such calls threads the
  state through.
\<close>

datatype call =
    Call_get_id
  | Call_get_context
  | Call_get_max_work_group_size
  | Call_get_default_queue
  | Call_set_property nat GValue
  | Call_get_property nat

fun do_call :: "native \<Rightarrow> world \<Rightarrow> objref \<Rightarrow> call \<Rightarrow> fault + world" where
  "do_call N w d Call_get_id = Inr w"
| "do_call N w d Call_get_context = Inr w"
| "do_call N w d Call_get_max_work_group_size =
     Inr (snd (snd (gocl_device_get_max_work_group_size N w (Some d))))"
| "do_call N w d Call_get_default_queue =
     (case gocl_device_get_default_queue N w (Some d) of
        Inl f \<Rightarrow> Inl f
      | Inr (q, err, w1) \<Rightarrow> Inr w1)"
| "do_call N w d (Call_set_property prop_id v) = g_object_set_property w d prop_id v"
| "do_call N w d (Call_get_property prop_id) =
     (case g_object_get_property w d prop_id of
        Inl f \<Rightarrow> Inl f
      | Inr (v, w1) \<Rightarrow> Inr w1)"

fun do_calls :: "native \<Rightarrow> world \<Rightarrow> objref \<Rightarrow> call list \<Rightarrow> fault + world" where
  "do_calls N w d [] = Inr w"
| "do_calls N w d (c # cs) =
     (case do_call N w d c of Inl f \<Rightarrow> Inl f | Inr w1 \<Rightarrow> do_calls N w1 d cs)"

text \<open>
  The state after \<open>n\<close> successive calls of \<^verbatim>\<open>gocl_device_get_max_work_group_size\<close>, and
  the cached field itself.
\<close>

fun get_size_repeatedly :: "native \<Rightarrow> world \<Rightarrow> gpointer \<Rightarrow> nat \<Rightarrow> world" where
  "get_size_repeatedly N w self 0 = w"
| "get_size_repeatedly N w self (Suc n) =
     get_size_repeatedly N (snd (snd (gocl_device_get_max_work_group_size N w self))) self n"

definition cached_size :: "world \<Rightarrow> objref \<Rightarrow> gsize" where
  "cached_size w a =
     (case device_at w a of None \<Rightarrow> 0 | Some p \<Rightarrow> priv_max_work_group_size p)"

text \<open>
  The first of the native calls numbered \<open>k, ..., k + n - 1\<close> that reports success, the
  value a reply stores, and the contract a conforming native layer keeps: it stores a
  size exactly when it reports success, and that size is not zero (OpenCL gives
  \<^verbatim>\<open>CL_DEVICE_MAX_WORK_GROUP_SIZE\<close> a minimum of one).
\<close>

fun first_success :: "native \<Rightarrow> cl_device_id \<Rightarrow> nat \<Rightarrow> nat \<Rightarrow> nat option" where
  "first_success N dev k 0 = None"
| "first_success N dev k (Suc n) =
     (if cl_status (clGetDeviceInfo N k dev) = CL_SUCCESS then Some k
      else first_success N dev (Suc k) n)"

definition reply_value :: "cl_reply \<Rightarrow> gsize" where
  "reply_value r = (case cl_written r of None \<Rightarrow> 0 | Some v \<Rightarrow> v)"

definition native_conforms :: "native \<Rightarrow> cl_device_id \<Rightarrow> bool" where
  "native_conforms N dev =
     (\<forall>k. case cl_written (clGetDeviceInfo N k dev) of
             None \<Rightarrow> cl_status (clGetDeviceInfo N k dev) \<noteq> CL_SUCCESS
           | Some v \<Rightarrow> cl_status (clGetDeviceInfo N k dev) = CL_SUCCESS \<and> v \<noteq> 0)"

text \<open>
  The pointer \<^verbatim>\<open>g_value_dup_object\<close> returns for an object value: the object itself when it
  is live, \<^verbatim>\<open>NULL\<close> otherwise.
\<close>

definition held :: "world \<Rightarrow> gpointer \<Rightarrow> gpointer" where
  "held w ctx = (case ctx of None \<Rightarrow> None
                 | Some c \<Rightarrow> (case heap_at w c of None \<Rightarrow> None | Some _ \<Rightarrow> Some c))"

section \<open>The context, as far as devices need it\<close>

text \<open>
  \<^verbatim>\<open>gocl-context.c\<close> is not among the sources, only the declarations of
  \<^verbatim>\<open>gocl-context.h\<close> are. What follows is the context of sections 3, 4.2 and 7 of the
  specification, reduced to what its devices need; the devices themselves are made by
  the construction of \<^verbatim>\<open>gocl-device.c\<close> above.
\<close>







section \<open>Concrete states and native layers\<close>

text \<open>
  A store holding one context; the same after a device (handle 7) was constructed for it;
  that device without a context; with its size cached; with its default queue; the
  store with one context after a default queue was requested of the context. The
  private blocks of instances that are not devices hold zeros throughout. Four
  native layers: one that always succeeds, one whose first answers fail, one that reports
  success with size zero, and one that fails after storing through the pointer.
\<close>

definition blank_priv :: GoclDevicePrivate where
  "blank_priv = \<lparr>priv_context = None, priv_device_id = None,
                  priv_max_work_group_size = 0, priv_queue = None\<rparr>"

definition world_empty :: world where
  "world_empty = \<lparr>heap = [], cl_queries = 0, queue_news = 0,
                   foreign_priv = (\<lambda>a. blank_priv)\<rparr>"

definition world_ctx :: world where
  "world_ctx = \<lparr>heap = [Some \<lparr>ref_count = 1, inst = Context_instance\<rparr>],
                 cl_queries = 0, queue_news = 0, foreign_priv = (\<lambda>a. blank_priv)\<rparr>"

definition world_dev :: world where
  "world_dev =
     \<lparr>heap = [Some \<lparr>ref_count = 2, inst = Context_instance\<rparr>,
              Some \<lparr>ref_count = 1, inst = Device_instance
                \<lparr>priv_context = Some 0, priv_device_id = Some 7,
                 priv_max_work_group_size = 0, priv_queue = None\<rparr>\<rparr>],
      cl_queries = 0, queue_news = 0, foreign_priv = (\<lambda>a. blank_priv)\<rparr>"

definition world_detached :: world where
  "world_detached =
     \<lparr>heap = [Some \<lparr>ref_count = 1, inst = Context_instance\<rparr>,
              Some \<lparr>ref_count = 1, inst = Device_instance
                \<lparr>priv_context = None, priv_device_id = Some 7,
                 priv_max_work_group_size = 0, priv_queue = None\<rparr>\<rparr>],
      cl_queries = 0, queue_news = 0, foreign_priv = (\<lambda>a. blank_priv)\<rparr>"

definition world_sized :: world where
  "world_sized =
     \<lparr>heap = [Some \<lparr>ref_count = 2, inst = Context_instance\<rparr>,
              Some \<lparr>ref_count = 1, inst = Device_instance
                \<lparr>priv_context = Some 0, priv_device_id = Some 7,
                 priv_max_work_group_size = 256, priv_queue = None\<rparr>\<rparr>],
      cl_queries = 1, queue_news = 0, foreign_priv = (\<lambda>a. blank_priv)\<rparr>"

definition world_queue :: world where
  "world_queue =
     \<lparr>heap = [Some \<lparr>ref_count = 2, inst = Context_instance\<rparr>,
              Some \<lparr>ref_count = 1, inst = Device_instance
                \<lparr>priv_context = Some 0, priv_device_id = Some 7,
                 priv_max_work_group_size = 0, priv_queue = Some 2\<rparr>\<rparr>,
              Some \<lparr>ref_count = 1, inst = Queue_instance (Some 1)\<rparr>],
      cl_queries = 0, queue_news = 1, foreign_priv = (\<lambda>a. blank_priv)\<rparr>"

definition world_ctx_queue :: world where
  "world_ctx_queue =
     \<lparr>heap = [Some \<lparr>ref_count = 1, inst = Context_instance\<rparr>,
              Some \<lparr>ref_count = 1, inst = Queue_instance (Some 0)\<rparr>],
      cl_queries = 0, queue_news = 1,
      foreign_priv = (\<lambda>a. blank_priv)(0 := blank_priv\<lparr>priv_queue := Some 1\<rparr>)\<rparr>"

definition native_ok :: native where
  "native_ok =
     \<lparr>clGetDeviceInfo = (\<lambda>k dev. \<lparr>cl_status = CL_SUCCESS, cl_written = Some 256\<rparr>),
      queue_init = (\<lambda>k dev. None)\<rparr>"

definition native_flaky :: native where
  "native_flaky =
     \<lparr>clGetDeviceInfo = (\<lambda>k dev. if k = 0 then \<lparr>cl_status = - 5, cl_written = None\<rparr>
                                 else \<lparr>cl_status = CL_SUCCESS, cl_written = Some 256\<rparr>),
      queue_init = (\<lambda>k dev. if k = 0
                             then Some \<lparr>error_domain = ''compute-api'', error_code = - 6\<rparr>
                             else None)\<rparr>"

definition native_zero :: native where
  "native_zero =
     \<lparr>clGetDeviceInfo = (\<lambda>k dev. \<lparr>cl_status = CL_SUCCESS, cl_written = Some 0\<rparr>),
      queue_init = (\<lambda>k dev. None)\<rparr>"

definition native_scribble :: native where
  "native_scribble =
     \<lparr>clGetDeviceInfo = (\<lambda>k dev. \<lparr>cl_status = - 5, cl_written = Some 7\<rparr>),
      queue_init = (\<lambda>k dev. None)\<rparr>"

section \<open>Facts about the store\<close>

lemmas store_defs =
  heap_at_def heap_put_def obj_refs_def device_at_def upd_priv_def g_object_alloc_def
  g_object_ref_def g_object_unref_def GOCL_IS_DEVICE_def priv_unchecked_def
  upd_priv_unchecked_def

lemmas example_defs =
  world_empty_def world_ctx_def world_dev_def world_detached_def world_sized_def
  world_queue_def world_ctx_queue_def native_ok_def native_flaky_def native_zero_def
  native_scribble_def blank_priv_def

lemma heap_at_SomeD: "heap_at w a = Some ob \<Longrightarrow> a < length (heap w)"
  by (simp add: heap_at_def split: if_splits)

lemma heap_at_heap_put:
  "heap_at (heap_put w a v) b = (if b = a \<and> a < length (heap w) then v else heap_at w b)"
  by (simp add: heap_at_def heap_put_def)

lemma heap_put_counters [simp]:
  "cl_queries (heap_put w a v) = cl_queries w"
  "queue_news (heap_put w a v) = queue_news w"
  "length (heap (heap_put w a v)) = length (heap w)"
  by (simp_all add: heap_put_def)

lemma heap_at_counters [simp]:
  "heap_at (w\<lparr>cl_queries := n\<rparr>) a = heap_at w a"
  "heap_at (w\<lparr>queue_news := n\<rparr>) a = heap_at w a"
  by (simp_all add: heap_at_def)

lemma device_at_counters [simp]:
  "device_at (w\<lparr>cl_queries := n\<rparr>) a = device_at w a"
  "device_at (w\<lparr>queue_news := n\<rparr>) a = device_at w a"
  by (simp_all add: device_at_def)

lemma obj_refs_counters [simp]:
  "obj_refs (w\<lparr>cl_queries := n\<rparr>) a = obj_refs w a"
  "obj_refs (w\<lparr>queue_news := n\<rparr>) a = obj_refs w a"
  by (simp_all add: obj_refs_def)

lemma upd_priv_counters [simp]:
  "cl_queries (upd_priv w a f) = cl_queries w"
  "queue_news (upd_priv w a f) = queue_news w"
  "length (heap (upd_priv w a f)) = length (heap w)"
  by (simp_all add: upd_priv_def split: option.splits g_instance.splits)

lemma heap_at_upd_priv:
  "heap_at (upd_priv w a f) b =
     (if b = a then
        (case heap_at w a of
           None \<Rightarrow> None
         | Some ob \<Rightarrow>
             (case inst ob of
                Device_instance p \<Rightarrow> Some (ob\<lparr>inst := Device_instance (f p)\<rparr>)
              | _ \<Rightarrow> Some ob))
      else heap_at w b)"
  by (auto simp: upd_priv_def heap_at_heap_put dest: heap_at_SomeD
           split: option.splits g_instance.splits)

lemma device_at_upd_priv:
  "device_at (upd_priv w a f) b = (if b = a then map_option f (device_at w a) else device_at w b)"
  by (simp add: device_at_def heap_at_upd_priv split: option.splits g_instance.splits)

lemma obj_refs_upd_priv [simp]:
  "obj_refs (upd_priv w a f) b = obj_refs w b"
  by (simp add: obj_refs_def heap_at_upd_priv split: option.splits g_instance.splits)

lemma upd_priv_same:
  "device_at w a = Some p \<Longrightarrow> f p = p \<Longrightarrow> upd_priv w a f = w"
  by (auto simp: device_at_def upd_priv_def heap_put_def heap_at_def list_update_same_conv
           split: option.splits g_instance.splits if_splits)

lemma heap_at_alloc:
  "heap_at (snd (g_object_alloc w i)) b =
     (if b = length (heap w) then Some \<lparr>ref_count = 1, inst = i\<rparr> else heap_at w b)"
  by (auto simp: heap_at_def g_object_alloc_def nth_append)

lemma device_at_alloc:
  "device_at (snd (g_object_alloc w i)) b =
     (if b = length (heap w) then (case i of Device_instance p \<Rightarrow> Some p | _ \<Rightarrow> None)
      else device_at w b)"
  by (simp add: device_at_def heap_at_alloc)

lemma device_at_live: "device_at w a = Some p \<Longrightarrow> a < length (heap w)"
  by (auto simp: device_at_def dest: heap_at_SomeD split: option.splits)

lemma alloc_counters [simp]:
  "cl_queries (snd (g_object_alloc w i)) = cl_queries w"
  "queue_news (snd (g_object_alloc w i)) = queue_news w"
  "fst (g_object_alloc w i) = length (heap w)"
  "length (heap (snd (g_object_alloc w i))) = Suc (length (heap w))"
  by (simp_all add: g_object_alloc_def)

lemma obj_refs_alloc:
  "obj_refs (snd (g_object_alloc w i)) b = (if b = length (heap w) then 1 else obj_refs w b)"
  by (simp add: obj_refs_def heap_at_alloc)


lemma g_object_ref_live:
  "heap_at w a = Some ob \<Longrightarrow> fst (g_object_ref w a) = Some a"
  by (simp add: g_object_ref_def)

lemma g_object_ref_dead:
  "heap_at w a = None \<Longrightarrow> g_object_ref w a = (None, w)"
  by (simp add: g_object_ref_def)

lemma heap_at_ref:
  "heap_at (snd (g_object_ref w a)) b =
     (if b = a then map_option (\<lambda>ob. ob\<lparr>ref_count := Suc (ref_count ob)\<rparr>) (heap_at w a)
      else heap_at w b)"
  by (auto simp: g_object_ref_def heap_at_heap_put dest: heap_at_SomeD split: option.splits)

lemma obj_refs_ref:
  "obj_refs (snd (g_object_ref w a)) b =
     (if b = a \<and> heap_at w a \<noteq> None then Suc (obj_refs w a) else obj_refs w b)"
  by (auto simp: obj_refs_def heap_at_ref split: option.splits)

lemma device_at_ref [simp]:
  "device_at (snd (g_object_ref w a)) b = device_at w b"
  by (auto simp: device_at_def heap_at_ref split: option.splits)

lemma ref_counters [simp]:
  "cl_queries (snd (g_object_ref w a)) = cl_queries w"
  "queue_news (snd (g_object_ref w a)) = queue_news w"
  "length (heap (snd (g_object_ref w a))) = length (heap w)"
  by (simp_all add: g_object_ref_def split: option.splits)

lemma heap_at_unref:
  "heap_at (g_object_unref w a) b =
     (if b = a then
        (case heap_at w a of
           None \<Rightarrow> None
         | Some ob \<Rightarrow> if ref_count ob \<le> 1 then None
                      else Some (ob\<lparr>ref_count := ref_count ob - 1\<rparr>))
      else heap_at w b)"
  by (auto simp: g_object_unref_def heap_at_heap_put dest: heap_at_SomeD split: option.splits)

lemma obj_refs_unref:
  "obj_refs (g_object_unref w a) b = (if b = a then obj_refs w a - 1 else obj_refs w b)"
  by (auto simp: obj_refs_def heap_at_unref split: option.splits)

lemma device_at_unref_other:
  "b \<noteq> a \<Longrightarrow> device_at (g_object_unref w a) b = device_at w b"
  by (simp add: device_at_def heap_at_unref)

lemma unref_counters [simp]:
  "cl_queries (g_object_unref w a) = cl_queries w"
  "queue_news (g_object_unref w a) = queue_news w"
  "length (heap (g_object_unref w a)) = length (heap w)"
  by (simp_all add: g_object_unref_def split: option.splits)

lemma held_live: "heap_at w c = Some ob \<Longrightarrow> held w (Some c) = Some c"
  by (simp add: held_def)

lemma dup_object_fst:
  "fst (g_value_dup_object w (G_value_object ctx)) = held w ctx"
  by (auto simp: g_value_dup_object_def held_def g_object_ref_def split: option.splits)

lemma dup_object_device_at [simp]:
  "device_at (snd (g_value_dup_object w v)) b = device_at w b"
  by (simp add: g_value_dup_object_def split: GValue.splits option.splits)

lemma dup_object_counters [simp]:
  "cl_queries (snd (g_value_dup_object w v)) = cl_queries w"
  "queue_news (snd (g_value_dup_object w v)) = queue_news w"
  "length (heap (snd (g_value_dup_object w v))) = length (heap w)"
  by (simp_all add: g_value_dup_object_def split: GValue.splits option.splits)

lemma dup_object_refs:
  "obj_refs (snd (g_value_dup_object w (G_value_object ctx))) b =
     (if held w ctx = Some b then Suc (obj_refs w b) else obj_refs w b)"
  by (auto simp: g_value_dup_object_def held_def obj_refs_ref split: option.splits)

section \<open>Reading the private block without a check\<close>

lemma foreign_priv_frame [simp]:
  "foreign_priv (heap_put w a v) = foreign_priv w"
  "foreign_priv (upd_priv w a f) = foreign_priv w"
  "foreign_priv (snd (g_object_alloc w i)) = foreign_priv w"
  "foreign_priv (snd (g_object_ref w a)) = foreign_priv w"
  "foreign_priv (g_object_unref w a) = foreign_priv w"
  by (simp_all add: heap_put_def upd_priv_def g_object_alloc_def g_object_ref_def
        g_object_unref_def split: option.splits g_instance.splits)

lemma heap_at_foreign [simp]:
  "heap_at (w\<lparr>foreign_priv := f\<rparr>) a = heap_at w a"
  by (simp add: heap_at_def)

lemma device_at_foreign [simp]:
  "device_at (w\<lparr>foreign_priv := f\<rparr>) a = device_at w a"
  by (simp add: device_at_def)

lemma priv_unchecked_device:
  "device_at w a = Some p \<Longrightarrow> priv_unchecked w a = Some p"
  by (auto simp: device_at_def priv_unchecked_def split: option.splits g_instance.splits)

lemma priv_unchecked_foreign:
  "heap_at w a = Some ob \<Longrightarrow> device_at w a = None \<Longrightarrow>
   priv_unchecked w a = Some (foreign_priv w a)"
  by (auto simp: device_at_def priv_unchecked_def split: option.splits g_instance.splits)

lemma priv_unchecked_dead:
  "heap_at w a = None \<Longrightarrow> priv_unchecked w a = None"
  by (simp add: priv_unchecked_def)

lemma upd_priv_unchecked_device:
  "device_at w a = Some p \<Longrightarrow> upd_priv_unchecked w a f = upd_priv w a f"
  by (auto simp: device_at_def upd_priv_unchecked_def split: option.splits g_instance.splits)

lemma upd_priv_unchecked_foreign:
  "heap_at w a = Some ob \<Longrightarrow> device_at w a = None \<Longrightarrow>
   upd_priv_unchecked w a f = w\<lparr>foreign_priv := (foreign_priv w)(a := f (foreign_priv w a))\<rparr>"
  by (auto simp: device_at_def upd_priv_unchecked_def split: option.splits g_instance.splits)

lemma device_at_queue_new:
  "b < length (heap w) \<Longrightarrow>
   device_at (snd (snd (g_initable_new_GoclQueue N w a))) b = device_at w b"
  by (simp add: g_initable_new_GoclQueue_def Let_def device_at_alloc case_prod_beta
        split: option.splits)

lemma heap_at_queue_new:
  "b < length (heap w) \<Longrightarrow>
   heap_at (snd (snd (g_initable_new_GoclQueue N w a))) b = heap_at w b"
  by (simp add: g_initable_new_GoclQueue_def Let_def heap_at_alloc case_prod_beta
        split: option.splits)

lemma foreign_priv_queue_new [simp]:
  "foreign_priv (snd (snd (g_initable_new_GoclQueue N w a))) = foreign_priv w"
  by (simp add: g_initable_new_GoclQueue_def Let_def case_prod_beta split: option.splits)

text \<open>On a device the unchecked accesses are the checked ones.\<close>

lemma gocl_device_get_default_queue_device:
  assumes "device_at w a = Some p"
  shows "gocl_device_get_default_queue N w (Some a)
     = (case priv_queue p of
          Some q \<Rightarrow> Inr (Some q, None, w)
        | None \<Rightarrow>
            (case g_initable_new_GoclQueue N w a of
               (q, err, w1) \<Rightarrow> Inr (q, err, upd_priv w1 a (\<lambda>p. p\<lparr>priv_queue := q\<rparr>))))"
proof (cases "priv_queue p")
  case (Some q)
  with assms show ?thesis
    by (simp add: gocl_device_get_default_queue_def priv_unchecked_device)
next
  case None
  obtain q err w1 where r: "g_initable_new_GoclQueue N w a = (q, err, w1)"
    by (cases "g_initable_new_GoclQueue N w a") auto
  have "a < length (heap w)" using assms by (rule device_at_live)
  from device_at_queue_new [OF this, of N a] r assms
  have "device_at w1 a = Some p" by simp
  then have "upd_priv_unchecked w1 a (\<lambda>p. p\<lparr>priv_queue := q\<rparr>)
               = upd_priv w1 a (\<lambda>p. p\<lparr>priv_queue := q\<rparr>)"
    by (rule upd_priv_unchecked_device)
  with assms None r show ?thesis
    by (simp add: gocl_device_get_default_queue_def priv_unchecked_device)
qed

text \<open>
  On a live instance that is not a device the same steps run on its private block.
\<close>

lemma gocl_device_get_default_queue_foreign:
  assumes "heap_at w a = Some ob" and "device_at w a = None"
  shows "gocl_device_get_default_queue N w (Some a)
     = (case priv_queue (foreign_priv w a) of
          Some q \<Rightarrow> Inr (Some q, None, w)
        | None \<Rightarrow>
            (case g_initable_new_GoclQueue N w a of
               (q, err, w1) \<Rightarrow>
                 Inr (q, err,
                      w1\<lparr>foreign_priv :=
                            (foreign_priv w)(a := (foreign_priv w a)\<lparr>priv_queue := q\<rparr>)\<rparr>)))"
proof (cases "priv_queue (foreign_priv w a)")
  case (Some q)
  with assms show ?thesis
    by (simp add: gocl_device_get_default_queue_def priv_unchecked_foreign)
next
  case None
  obtain q err w1 where r: "g_initable_new_GoclQueue N w a = (q, err, w1)"
    by (cases "g_initable_new_GoclQueue N w a") auto
  have a: "a < length (heap w)" using assms(1) by (rule heap_at_SomeD)
  from heap_at_queue_new [OF a, of N a] device_at_queue_new [OF a, of N a] r assms
  have live: "heap_at w1 a = Some ob" and nodev: "device_at w1 a = None" by simp_all
  from foreign_priv_queue_new [of N w a] r
  have f: "foreign_priv w1 = foreign_priv w" by simp
  from upd_priv_unchecked_foreign [OF live nodev, of "\<lambda>p. p\<lparr>priv_queue := q\<rparr>"] f
  have "upd_priv_unchecked w1 a (\<lambda>p. p\<lparr>priv_queue := q\<rparr>)
          = w1\<lparr>foreign_priv := (foreign_priv w)(a := (foreign_priv w a)\<lparr>priv_queue := q\<rparr>)\<rparr>"
    by simp
  with assms None r show ?thesis
    by (simp add: gocl_device_get_default_queue_def priv_unchecked_foreign)
qed

lemma gocl_device_get_default_queue_dead:
  "heap_at w a = None \<Longrightarrow> gocl_device_get_default_queue N w (Some a) = Inl Invalid_pointer"
  by (simp add: gocl_device_get_default_queue_def priv_unchecked_dead)

section \<open>Construction and disposal\<close>

text \<open>
  Construction never faults. It yields a device at the next address whose caches are
  empty, whose handle is the one passed in and whose context field holds the pointer
  \<^verbatim>\<open>g_value_dup_object\<close> returned; the only other change to the store is the reference
  taken on the context.
\<close>

lemma g_object_new_GoclDevice_total:
  "\<exists>w1 cx. g_object_new_GoclDevice w ctx dev = Inr (length (heap w), w1)
     \<and> device_at w1 (length (heap w))
         = Some \<lparr>priv_context = cx, priv_device_id = dev,
                 priv_max_work_group_size = 0, priv_queue = None\<rparr>
     \<and> (ctx \<noteq> Some (length (heap w)) \<longrightarrow> cx = held w ctx)
     \<and> (\<forall>b. b \<noteq> length (heap w) \<longrightarrow> device_at w1 b = device_at w b)
     \<and> (\<forall>b. b \<noteq> length (heap w) \<longrightarrow> obj_refs w1 b =
            (if held w ctx = Some b then Suc (obj_refs w b) else obj_refs w b))
     \<and> (ctx \<noteq> Some (length (heap w)) \<longrightarrow> obj_refs w1 (length (heap w)) = 1)
     \<and> length (heap w1) = Suc (length (heap w))
     \<and> cl_queries w1 = cl_queries w \<and> queue_news w1 = queue_news w"
proof -
  let ?d = "length (heap w)"
  let ?p0 = "\<lparr>priv_context = None, priv_device_id = None,
              priv_max_work_group_size = 0, priv_queue = None\<rparr>"
  define w0 where "w0 = snd (g_object_alloc w (Device_instance ?p0))"
  define wi where "wi = upd_priv w0 ?d (\<lambda>p. p\<lparr>priv_max_work_group_size := 0, priv_queue := None\<rparr>)"
  define wr where "wr = snd (g_value_dup_object wi (G_value_object ctx))"
  define wc where "wc = upd_priv wr ?d (\<lambda>p. p\<lparr>priv_context := held wi ctx\<rparr>)"
  define w3 where "w3 = upd_priv wc ?d (\<lambda>p. p\<lparr>priv_device_id := dev\<rparr>)"
  have alloc: "g_object_alloc w (Device_instance ?p0) = (?d, w0)"
    by (simp add: w0_def g_object_alloc_def)
  have d0: "device_at w0 ?d = Some ?p0"
    by (simp add: w0_def device_at_alloc)
  have init: "gocl_device_init w0 ?d = Inr wi"
    by (simp add: gocl_device_init_def d0 wi_def)
  have di: "device_at wi ?d = Some ?p0"
    by (simp add: wi_def device_at_upd_priv d0)
  have heap_i: "heap_at wi b = heap_at w b" if "b \<noteq> ?d" for b
    using that by (simp add: wi_def heap_at_upd_priv w0_def heap_at_alloc)
  have refs_i: "obj_refs wi b = (if b = ?d then 1 else obj_refs w b)" for b
    by (simp add: wi_def w0_def obj_refs_alloc)
  have held_eq: "held wi ctx = held w ctx" if "ctx \<noteq> Some ?d"
    using that by (cases ctx) (simp_all add: held_def heap_i)
  have held_other: "held wi ctx = Some b \<longleftrightarrow> held w ctx = Some b" if "b \<noteq> ?d" for b
    using that by (cases ctx) (auto simp: held_def heap_i split: option.splits)
  have setc: "set_property wi ?d PROP_CONTEXT (G_value_object ctx) = Inr wc"
    using dup_object_fst [of wi ctx]
    by (auto simp: set_property_def di wc_def wr_def split: prod.splits)
  have dc: "device_at wc ?d = Some (?p0\<lparr>priv_context := held wi ctx\<rparr>)"
    by (simp add: wc_def wr_def device_at_upd_priv di)
  have seti: "set_property wc ?d PROP_ID (G_value_pointer dev) = Inr w3"
    by (simp add: set_property_def dc w3_def g_value_get_pointer_def)
  have new: "g_object_new_GoclDevice w ctx dev = Inr (?d, w3)"
    using alloc init setc seti by (simp add: g_object_new_GoclDevice_def)
  have d3: "device_at w3 ?d = Some \<lparr>priv_context = held wi ctx, priv_device_id = dev,
                 priv_max_work_group_size = 0, priv_queue = None\<rparr>"
    by (simp add: w3_def device_at_upd_priv dc)
  have frame: "\<forall>b. b \<noteq> ?d \<longrightarrow> device_at w3 b = device_at w b"
    by (simp add: w3_def wc_def wr_def wi_def w0_def device_at_upd_priv device_at_alloc)
  have refs3: "obj_refs w3 b = (if held wi ctx = Some b then Suc (obj_refs wi b) else obj_refs wi b)"
    for b
    by (simp add: w3_def wc_def wr_def dup_object_refs)
  have refs: "\<forall>b. b \<noteq> ?d \<longrightarrow> obj_refs w3 b =
            (if held w ctx = Some b then Suc (obj_refs w b) else obj_refs w b)"
    by (simp add: refs3 refs_i held_other)
  have not_self: "held w ctx \<noteq> Some ?d"
    by (auto simp: held_def heap_at_def split: option.splits)
  have refs_d: "ctx \<noteq> Some ?d \<longrightarrow> obj_refs w3 ?d = 1"
    using not_self by (simp add: refs3 refs_i held_eq)
  have len: "length (heap w3) = Suc (length (heap w))"
    by (simp add: w3_def wc_def wr_def wi_def w0_def)
  have cnt: "cl_queries w3 = cl_queries w \<and> queue_news w3 = queue_news w"
    by (simp add: w3_def wc_def wr_def wi_def w0_def)
  from new d3 held_eq frame refs refs_d len cnt show ?thesis by blast
qed

text \<open>
  Disposal of a device that does not point at itself: both fields end \<^verbatim>\<open>NULL\<close>, each
  object a field pointed at has lost one reference, and a second run changes nothing.
\<close>

lemma gocl_device_dispose_effect:
  assumes dev: "device_at w a = Some p"
    and nc: "priv_context p \<noteq> Some a"
    and nq: "priv_queue p \<noteq> Some a"
  shows "\<exists>w1. gocl_device_dispose w a = Inr w1
     \<and> device_at w1 a = Some (p\<lparr>priv_context := None, priv_queue := None\<rparr>)
     \<and> (\<forall>b. obj_refs w1 b =
            obj_refs w b - (if priv_context p = Some b then 1 else 0)
                         - (if priv_queue p = Some b then 1 else 0))
     \<and> cl_queries w1 = cl_queries w \<and> queue_news w1 = queue_news w
     \<and> gocl_device_dispose w1 a = Inr w1"
proof -
  define w1 where "w1 = (case priv_context p of None \<Rightarrow> w
     | Some c \<Rightarrow> upd_priv (g_object_unref w c) a (\<lambda>p. p\<lparr>priv_context := None\<rparr>))"
  define p1 where "p1 = p\<lparr>priv_context := None\<rparr>"
  define w2 where "w2 = (case priv_queue p1 of None \<Rightarrow> w1
     | Some q \<Rightarrow> upd_priv (g_object_unref w1 q) a (\<lambda>p. p\<lparr>priv_queue := None\<rparr>))"
  have d1: "device_at w1 a = Some p1"
  proof (cases "priv_context p")
    case None
    then show ?thesis by (simp add: w1_def p1_def dev)
  next
    case (Some c)
    with nc have "a \<noteq> c" by auto
    with Some show ?thesis
      by (simp add: w1_def p1_def device_at_upd_priv device_at_unref_other dev)
  qed
  have r1: "obj_refs w1 b = obj_refs w b - (if priv_context p = Some b then 1 else 0)" for b
    by (cases "priv_context p") (auto simp: w1_def obj_refs_unref)
  have q1: "priv_queue p1 = priv_queue p" by (simp add: p1_def)
  have d2: "device_at w2 a = Some (p\<lparr>priv_context := None, priv_queue := None\<rparr>)"
  proof (cases "priv_queue p")
    case None
    then show ?thesis by (simp add: w2_def q1 d1 p1_def)
  next
    case (Some q)
    with nq have "a \<noteq> q" by auto
    with Some show ?thesis
      by (simp add: w2_def q1 p1_def device_at_upd_priv device_at_unref_other d1)
  qed
  have r2: "obj_refs w2 b = obj_refs w1 b - (if priv_queue p = Some b then 1 else 0)" for b
    by (cases "priv_queue p") (auto simp: w2_def q1 obj_refs_unref)
  have cnt: "cl_queries w2 = cl_queries w \<and> queue_news w2 = queue_news w"
    by (simp add: w2_def w1_def split: option.splits)
  have run: "gocl_device_dispose w a = Inr w2"
    using dev d1
    by (simp add: gocl_device_dispose_def Let_def w1_def [symmetric] w2_def [symmetric]
          g_object_real_dispose_def)
  have again: "gocl_device_dispose w2 a = Inr w2"
    using d2 by (simp add: gocl_device_dispose_def Let_def g_object_real_dispose_def)
  from run d2 r1 r2 cnt again show ?thesis by simp
qed

section \<open>The concrete states are reachable\<close>

lemma world_dev_constructed:
  "g_object_new_GoclDevice world_ctx (Some 0) (Some 7) = Inr (1, world_dev)"
  by (simp add: g_object_new_GoclDevice_def gocl_device_init_def set_property_def
        g_value_dup_object_def g_value_get_pointer_def store_defs example_defs)

lemma world_detached_constructed:
  "g_object_new_GoclDevice world_ctx None (Some 7) = Inr (1, world_detached)"
  by (simp add: g_object_new_GoclDevice_def gocl_device_init_def set_property_def
        g_value_dup_object_def g_value_get_pointer_def store_defs example_defs)

lemma world_dev_disposed:
  "gocl_device_dispose world_dev 1 = Inr world_detached"
  by (simp add: gocl_device_dispose_def g_object_real_dispose_def store_defs example_defs)

lemma world_dev_device:
  "device_at world_dev 1 = Some \<lparr>priv_context = Some 0, priv_device_id = Some 7,
                 priv_max_work_group_size = 0, priv_queue = None\<rparr>"
  by (simp add: store_defs example_defs)

lemma world_dev_first_query_ok:
  "gocl_device_get_max_work_group_size native_ok world_dev (Some 1) = (256, None, world_sized)"
  by (simp add: gocl_device_get_max_work_group_size_def gocl_error_check_opencl_def
        store_defs example_defs)

lemma world_dev_first_query_flaky:
  "gocl_device_get_max_work_group_size native_flaky world_dev (Some 1)
     = (0, Some \<lparr>error_domain = ''compute-api'', error_code = - 5\<rparr>,
        world_dev\<lparr>cl_queries := 1\<rparr>)"
  by (simp add: gocl_device_get_max_work_group_size_def gocl_error_check_opencl_def
        store_defs example_defs)

lemma world_dev_second_query_flaky:
  "gocl_device_get_max_work_group_size native_flaky (world_dev\<lparr>cl_queries := 1\<rparr>) (Some 1)
     = (256, None, world_sized\<lparr>cl_queries := 2\<rparr>)"
  by (simp add: gocl_device_get_max_work_group_size_def gocl_error_check_opencl_def
        store_defs example_defs)


lemma native_flaky_conforms: "native_conforms native_flaky (Some 7)"
  by (simp add: native_conforms_def native_flaky_def)

section \<open>Calls that leave the context field alone\<close>

lemma g_object_set_property_refused: "g_object_set_property w obj prop_id v = Inr w"
  by (simp add: g_object_set_property_def gocl_device_class_init_def)

lemma g_object_get_property_keeps_device:
  assumes "device_at w d = Some p"
  shows "\<exists>v w1. g_object_get_property w d prop_id = Inr (v, w1) \<and> device_at w1 d = Some p"
  using assms
  by (auto simp: g_object_get_property_def get_property_def g_value_set_object_def
        case_prod_beta split: option.splits)

lemma get_size_keeps_context:
  assumes "device_at w d = Some p"
  shows "\<exists>p'. device_at (snd (snd (gocl_device_get_max_work_group_size N w (Some d)))) d = Some p'
     \<and> priv_context p' = priv_context p"
  using assms
  by (auto simp: gocl_device_get_max_work_group_size_def Let_def device_at_upd_priv
        split: option.splits prod.splits bool.splits)

lemma get_queue_keeps_context:
  assumes "device_at w d = Some p"
  shows "\<exists>q err w1 p'. gocl_device_get_default_queue N w (Some d) = Inr (q, err, w1)
     \<and> device_at w1 d = Some p' \<and> priv_context p' = priv_context p"
proof (cases "priv_queue p")
  case (Some q)
  with assms show ?thesis by (simp add: gocl_device_get_default_queue_device [OF assms])
next
  case None
  obtain q err w1 where r: "g_initable_new_GoclQueue N w d = (q, err, w1)"
    by (cases "g_initable_new_GoclQueue N w d") auto
  have "d < length (heap w)" using assms by (rule device_at_live)
  from device_at_queue_new [OF this, of N d] r assms
  have "device_at w1 d = Some p" by simp
  with assms None r show ?thesis
    by (simp add: gocl_device_get_default_queue_device [OF assms] device_at_upd_priv)
qed

lemma do_call_keeps_context:
  assumes "device_at w d = Some p"
  shows "\<exists>w1 p'. do_call N w d c = Inr w1 \<and> device_at w1 d = Some p'
     \<and> priv_context p' = priv_context p"
proof (cases c)
  case Call_get_max_work_group_size
  with get_size_keeps_context [OF assms, of N] show ?thesis by auto
next
  case Call_get_default_queue
  with get_queue_keeps_context [OF assms, of N] show ?thesis by auto
next
  case (Call_get_property prop_id)
  with g_object_get_property_keeps_device [OF assms, of prop_id] show ?thesis by auto
qed (simp_all add: assms g_object_set_property_refused)

lemma do_calls_keep_context:
  "device_at w d = Some p \<Longrightarrow>
   \<exists>w1 p'. do_calls N w d cs = Inr w1 \<and> device_at w1 d = Some p'
     \<and> priv_context p' = priv_context p"
proof (induction cs arbitrary: w p)
  case Nil
  then show ?case by simp
next
  case (Cons c cs)
  from do_call_keeps_context [OF Cons.prems, of N c]
  obtain w1 p1 where s: "do_call N w d c = Inr w1" "device_at w1 d = Some p1"
    "priv_context p1 = priv_context p" by blast
  from Cons.IH [OF s(2)] s show ?case by auto
qed

section \<open>The cached size along a trace of queries\<close>

lemma get_size_cached:
  "device_at w a = Some p \<Longrightarrow> priv_max_work_group_size p \<noteq> 0 \<Longrightarrow>
   gocl_device_get_max_work_group_size N w (Some a) = (priv_max_work_group_size p, None, w)"
  by (simp add: gocl_device_get_max_work_group_size_def word_gt_0)

lemma get_size_repeatedly_cached:
  "device_at w a = Some p \<Longrightarrow> priv_max_work_group_size p \<noteq> 0 \<Longrightarrow>
   get_size_repeatedly N w (Some a) n = w"
  by (induction n) (simp_all add: get_size_cached)

lemma get_size_first_query:
  assumes "device_at w a = Some p" and "priv_max_work_group_size p = 0"
  shows "snd (snd (gocl_device_get_max_work_group_size N w (Some a)))
     = (upd_priv w a
         (\<lambda>_. case cl_written (clGetDeviceInfo N (cl_queries w) (priv_device_id p)) of
                 None \<Rightarrow> p
               | Some v \<Rightarrow> p\<lparr>priv_max_work_group_size := v\<rparr>))
       \<lparr>cl_queries := Suc (cl_queries w)\<rparr>"
  using assms
  by (simp add: gocl_device_get_max_work_group_size_def Let_def split: prod.splits bool.splits)

lemma first_success_status:
  "first_success N dev k n = Some j \<Longrightarrow> cl_status (clGetDeviceInfo N j dev) = CL_SUCCESS"
  by (induction n arbitrary: k) (auto split: if_splits)

lemma cached_size_after_queries:
  assumes "device_at w a = Some p"
    and "priv_max_work_group_size p = 0"
    and "native_conforms N (priv_device_id p)"
  shows "cached_size (get_size_repeatedly N w (Some a) n) a
     = (case first_success N (priv_device_id p) (cl_queries w) n of
          None \<Rightarrow> 0
        | Some k \<Rightarrow> reply_value (clGetDeviceInfo N k (priv_device_id p)))"
  using assms
proof (induction n arbitrary: w p)
  case 0
  then show ?case by (simp add: cached_size_def)
next
  case (Suc n)
  let ?r = "clGetDeviceInfo N (cl_queries w) (priv_device_id p)"
  let ?w1 = "snd (snd (gocl_device_get_max_work_group_size N w (Some a)))"
  from Suc.prems(3) have conf:
    "case cl_written ?r of None \<Rightarrow> cl_status ?r \<noteq> CL_SUCCESS
      | Some v \<Rightarrow> cl_status ?r = CL_SUCCESS \<and> v \<noteq> 0"
    unfolding native_conforms_def by blast
  show ?case
  proof (cases "cl_written ?r")
    case None
    with conf have fail: "cl_status ?r \<noteq> CL_SUCCESS" by simp
    have w1: "?w1 = (upd_priv w a (\<lambda>_. p))\<lparr>cl_queries := Suc (cl_queries w)\<rparr>"
      using get_size_first_query [OF Suc.prems(1,2), of N] None by simp
    have d1: "device_at ?w1 a = Some p"
      by (simp add: w1 device_at_upd_priv Suc.prems(1))
    have c1: "cl_queries ?w1 = Suc (cl_queries w)"
      by (simp add: w1)
    from Suc.IH [OF d1 Suc.prems(2,3)] fail c1 show ?thesis by simp
  next
    case (Some v)
    with conf have ok: "cl_status ?r = CL_SUCCESS" and v: "v \<noteq> 0" by simp_all
    have w1: "?w1 = (upd_priv w a (\<lambda>_. p\<lparr>priv_max_work_group_size := v\<rparr>))
                      \<lparr>cl_queries := Suc (cl_queries w)\<rparr>"
      using get_size_first_query [OF Suc.prems(1,2), of N] Some by simp
    have d1: "device_at ?w1 a = Some (p\<lparr>priv_max_work_group_size := v\<rparr>)"
      by (simp add: w1 device_at_upd_priv Suc.prems(1))
    have "get_size_repeatedly N ?w1 (Some a) n = ?w1"
      by (rule get_size_repeatedly_cached [OF d1]) (simp add: v)
    with d1 ok Some show ?thesis
      by (simp add: cached_size_def reply_value_def)
  qed
qed

lemma first_success_value_nonzero:
  assumes "native_conforms N dev" and "first_success N dev k n = Some j"
  shows "reply_value (clGetDeviceInfo N j dev) \<noteq> 0"
proof -
  from first_success_status [OF assms(2)]
  have "cl_status (clGetDeviceInfo N j dev) = CL_SUCCESS" .
  moreover from assms(1)
  have "case cl_written (clGetDeviceInfo N j dev) of
          None \<Rightarrow> cl_status (clGetDeviceInfo N j dev) \<noteq> CL_SUCCESS
        | Some v \<Rightarrow> cl_status (clGetDeviceInfo N j dev) = CL_SUCCESS \<and> v \<noteq> 0"
    unfolding native_conforms_def by blast
  ultimately show ?thesis
    by (simp add: reply_value_def split: option.splits)
qed

section \<open>Devices wrapped by a context\<close>


section \<open>The claims\<close>

subsection \<open>C1: memoization of the maximum work-group size\<close>

text \<open>
  Claim C1 as stated, for every device: two calls of \<^verbatim>\<open>get_max_work_group_size\<close> return
  the identical value and the second performs no native query. It fails where the first
  query fails: on the device of \<open>world_dev\<close> with a native layer whose first answer is
  an error, the first call returns 0 with that error, and the second call queries the
  native layer again (the query count goes from 1 to 2) and returns 256.
\<close>

theorem second_query_repeats_after_failure:
  "gocl_device_get_max_work_group_size native_flaky world_dev (Some 1)
     = (0, Some \<lparr>error_domain = ''compute-api'', error_code = - 5\<rparr>,
        world_dev\<lparr>cl_queries := 1\<rparr>)
   \<and> gocl_device_get_max_work_group_size native_flaky (world_dev\<lparr>cl_queries := 1\<rparr>) (Some 1)
     = (256, None, world_sized\<lparr>cl_queries := 2\<rparr>)
   \<and> cl_queries (world_dev\<lparr>cl_queries := 1\<rparr>) = 1
   \<and> cl_queries (world_sized\<lparr>cl_queries := 2\<rparr>) = 2"
  using world_dev_first_query_flaky world_dev_second_query_flaky by simp

text \<open>
  Claim C1 as amended: when a call of \<^verbatim>\<open>get_max_work_group_size\<close> returns a non-zero value
  (the native query succeeded with a non-zero size, or such a value was cached already),
  the next call returns the identical value with no error and leaves the state, the count
  of native queries included, as it was; its result does not depend on the native layer.
\<close>

theorem max_work_group_size_memoized:
  assumes "gocl_device_get_max_work_group_size N w self = (v, e, w1)"
    and "v \<noteq> 0"
  shows "gocl_device_get_max_work_group_size N' w1 self = (v, None, w1)"
proof (cases self)
  case None
  with assms show ?thesis
    by (simp add: gocl_device_get_max_work_group_size_def)
next
  case (Some a)
  show ?thesis
  proof (cases "device_at w a")
    case None
    with assms Some show ?thesis
      by (simp add: gocl_device_get_max_work_group_size_def)
  next
    case (Some p)
    note dev = Some
    show ?thesis
    proof (cases "priv_max_work_group_size p > 0")
      case True
      with assms dev \<open>self = Some a\<close> show ?thesis
        by (auto simp: gocl_device_get_max_work_group_size_def)
    next
      case False
      define r where "r = clGetDeviceInfo N (cl_queries w) (priv_device_id p)"
      define p1 where "p1 = (case cl_written r of None \<Rightarrow> p
                              | Some x \<Rightarrow> p\<lparr>priv_max_work_group_size := x\<rparr>)"
      from assms dev \<open>self = Some a\<close> False
      have ok: "cl_status r = CL_SUCCESS"
        and v: "v = priv_max_work_group_size p1"
        and w1: "w1 = (upd_priv w a (\<lambda>_. p1))\<lparr>cl_queries := Suc (cl_queries w)\<rparr>"
        by (auto simp: gocl_device_get_max_work_group_size_def gocl_error_check_opencl_def
              Let_def r_def p1_def split: if_splits)
      have "device_at w1 a = Some p1"
        by (simp add: w1 device_at_upd_priv dev)
      with v \<open>v \<noteq> 0\<close> \<open>self = Some a\<close> show ?thesis
        by (simp add: gocl_device_get_max_work_group_size_def word_gt_0)
    qed
  qed
qed

text \<open>
  At \<open>world_dev\<close>: the first call under the succeeding native layer returns 256, and the
  second returns 256 again even under the native layer whose next answer would fail.
\<close>

theorem max_work_group_size_memoized_witness:
  "gocl_device_get_max_work_group_size native_ok world_dev (Some 1) = (256, None, world_sized)
   \<and> gocl_device_get_max_work_group_size native_flaky world_sized (Some 1)
       = (256, None, world_sized)"
proof -
  have nz: "(256 :: gsize) \<noteq> 0" by simp
  from max_work_group_size_memoized [OF world_dev_first_query_ok nz, of native_flaky]
    world_dev_first_query_ok
  show ?thesis by (rule conjI [rotated])
qed

subsection \<open>C2: a failed default-queue construction\<close>

text \<open>
  Claim C2: when the construction of the default queue fails, \<^verbatim>\<open>get_default_queue\<close>
  returns \<^verbatim>\<open>NULL\<close> with the constructor's error, the state differs from the one before
  only in the count of construction attempts (the device's private data are unchanged, no
  queue is cached), and a retry runs the constructor again.
\<close>

theorem default_queue_failure_leaves_no_queue:
  assumes "device_at w a = Some p"
    and "priv_queue p = None"
    and "queue_init N (queue_news w) a = Some e"
  shows "gocl_device_get_default_queue N w (Some a)
           = Inr (None, Some e, w\<lparr>queue_news := Suc (queue_news w)\<rparr>)
    \<and> device_at (w\<lparr>queue_news := Suc (queue_news w)\<rparr>) a = Some p
    \<and> gocl_device_get_default_queue N (w\<lparr>queue_news := Suc (queue_news w)\<rparr>) (Some a)
        = (case g_initable_new_GoclQueue N (w\<lparr>queue_news := Suc (queue_news w)\<rparr>) a of
             (q, err, w2) \<Rightarrow> Inr (q, err, upd_priv w2 a (\<lambda>p. p\<lparr>priv_queue := q\<rparr>)))"
proof -
  let ?w1 = "w\<lparr>queue_news := Suc (queue_news w)\<rparr>"
  have same: "upd_priv ?w1 a (\<lambda>p. p\<lparr>priv_queue := None\<rparr>) = ?w1"
    by (rule upd_priv_same [where p = p]) (simp_all add: assms)
  have d1: "device_at ?w1 a = Some p"
    using assms(1) by simp
  have first: "gocl_device_get_default_queue N w (Some a) = Inr (None, Some e, ?w1)"
    using assms same
    by (simp add: gocl_device_get_default_queue_device [OF assms(1)]
          g_initable_new_GoclQueue_def Let_def)
  have retry: "gocl_device_get_default_queue N ?w1 (Some a)
        = (case g_initable_new_GoclQueue N ?w1 a of
             (q, err, w2) \<Rightarrow> Inr (q, err, upd_priv w2 a (\<lambda>p. p\<lparr>priv_queue := q\<rparr>)))"
    using assms(2) by (simp add: gocl_device_get_default_queue_device [OF d1])
  from first d1 retry show ?thesis by simp
qed

text \<open>
  At \<open>world_dev\<close> with a queue constructor that fails once: the first call surfaces the
  error, the retry constructs and caches the queue at address 2.
\<close>

theorem default_queue_failure_leaves_no_queue_witness:
  "gocl_device_get_default_queue native_flaky world_dev (Some 1)
     = Inr (None, Some \<lparr>error_domain = ''compute-api'', error_code = - 6\<rparr>,
            world_dev\<lparr>queue_news := 1\<rparr>)
   \<and> gocl_device_get_default_queue native_flaky (world_dev\<lparr>queue_news := 1\<rparr>) (Some 1)
     = Inr (Some 2, None, world_queue\<lparr>queue_news := 2\<rparr>)"
proof -
  have d: "device_at world_dev 1 = Some \<lparr>priv_context = Some 0, priv_device_id = Some 7,
                 priv_max_work_group_size = 0, priv_queue = None\<rparr>"
    by (simp add: store_defs example_defs)
  have q: "priv_queue \<lparr>priv_context = Some 0, priv_device_id = Some 7,
                 priv_max_work_group_size = 0, priv_queue = None\<rparr> = None"
    by simp
  have f: "queue_init native_flaky (queue_news world_dev) 1
             = Some \<lparr>error_domain = ''compute-api'', error_code = - 6\<rparr>"
    by (simp add: example_defs)
  have n: "Suc (queue_news world_dev) = 1" by (simp add: example_defs)
  have r: "(case g_initable_new_GoclQueue native_flaky (world_dev\<lparr>queue_news := 1\<rparr>) 1 of
             (q, err, w2) \<Rightarrow> Inr (q, err, upd_priv w2 1 (\<lambda>p. p\<lparr>priv_queue := q\<rparr>)))
           = (Inr (Some 2, None, world_queue\<lparr>queue_news := 2\<rparr>)
               :: fault + (gpointer \<times> GError option \<times> world))"
    by (simp add: g_initable_new_GoclQueue_def store_defs example_defs)
  from default_queue_failure_leaves_no_queue [OF d q f] show ?thesis
    unfolding n r by simp
qed

subsection \<open>C3: the reference a device holds on its context\<close>

text \<open>
  Claim C3 as stated: constructing a device leaves the context's reference count unchanged
  and destroying the device does not release the context. On the code, \<^verbatim>\<open>set_property\<close>
  stores \<^verbatim>\<open>g_value_dup_object (value)\<close> and \<^verbatim>\<open>gocl_device_dispose\<close> calls
  \<^verbatim>\<open>g_object_unref\<close> on the field: the count of the context goes from 1 to 2 at
  construction and back to 1 at disposal.
\<close>

theorem construction_takes_a_context_reference:
  "g_object_new_GoclDevice world_ctx (Some 0) (Some 7) = Inr (1, world_dev)
   \<and> obj_refs world_ctx 0 = 1
   \<and> obj_refs world_dev 0 = 2
   \<and> gocl_device_dispose world_dev 1 = Inr world_detached
   \<and> obj_refs world_detached 0 = 1"
  using world_dev_constructed world_dev_disposed
  by (simp add: obj_refs_def heap_at_def example_defs)

text \<open>
  Claim C3 as amended: the device's reference to its context is an owning one. Constructing
  a device with a live context raises the context's reference count by exactly one, and
  disposing of the device lowers it by exactly one.
\<close>

theorem device_holds_a_context_reference:
  assumes "heap_at w c = Some ob"
  shows "\<exists>d w1 w2. g_object_new_GoclDevice w (Some c) dev = Inr (d, w1)
     \<and> obj_refs w1 c = Suc (obj_refs w c)
     \<and> gocl_device_dispose w1 d = Inr w2
     \<and> Suc (obj_refs w2 c) = obj_refs w1 c"
proof -
  let ?d = "length (heap w)"
  have c: "c < ?d" using assms by (rule heap_at_SomeD)
  then have ne: "Some c \<noteq> Some ?d" by simp
  from g_object_new_GoclDevice_total [of w "Some c" dev] ne held_live [OF assms]
  obtain w1 where new: "g_object_new_GoclDevice w (Some c) dev = Inr (?d, w1)"
    and d1: "device_at w1 ?d = Some \<lparr>priv_context = Some c, priv_device_id = dev,
                 priv_max_work_group_size = 0, priv_queue = None\<rparr>"
    and refs1: "\<forall>b. b \<noteq> ?d \<longrightarrow> obj_refs w1 b =
            (if held w (Some c) = Some b then Suc (obj_refs w b) else obj_refs w b)"
    by auto
  have r1: "obj_refs w1 c = Suc (obj_refs w c)"
    using refs1 c held_live [OF assms] by simp
  from gocl_device_dispose_effect [OF d1] c
  obtain w2 where disp: "gocl_device_dispose w1 ?d = Inr w2"
    and refs2: "\<forall>b. obj_refs w2 b = obj_refs w1 b - (if Some c = Some b then 1 else 0)"
    by auto
  from refs2 r1 have "Suc (obj_refs w2 c) = obj_refs w1 c" by simp
  with new r1 disp show ?thesis by blast
qed

text \<open>
  For the context of \<open>world_ctx\<close> and the native handle 7.
\<close>

theorem device_holds_a_context_reference_witness:
  "g_object_new_GoclDevice world_ctx (Some 0) (Some 7) = Inr (1, world_dev)
   \<and> obj_refs world_dev 0 = Suc (obj_refs world_ctx 0)
   \<and> gocl_device_dispose world_dev 1 = Inr world_detached
   \<and> Suc (obj_refs world_detached 0) = obj_refs world_dev 0"
proof -
  have "heap_at world_ctx 0 = Some \<lparr>ref_count = 1, inst = Context_instance\<rparr>"
    by (simp add: heap_at_def world_ctx_def)
  from device_holds_a_context_reference [OF this, of "Some 7"]
  obtain d w1 w2 where "g_object_new_GoclDevice world_ctx (Some 0) (Some 7) = Inr (d, w1)"
    and "obj_refs w1 0 = Suc (obj_refs world_ctx 0)"
    and "gocl_device_dispose w1 d = Inr w2"
    and "Suc (obj_refs w2 0) = obj_refs w1 0"
    by blast
  with world_dev_constructed world_dev_disposed show ?thesis by simp
qed

subsection \<open>C4: a failed size query\<close>

text \<open>
  Claim C4: when the size is not cached and the native query reports a status other than
  \<^verbatim>\<open>CL_SUCCESS\<close>, \<^verbatim>\<open>get_max_work_group_size\<close> returns zero and the error it fills in has
  the domain \<^verbatim>\<open>compute-api\<close> and the native status as its code.
\<close>

theorem query_failure_returns_zero:
  assumes "device_at w a = Some p"
    and "priv_max_work_group_size p = 0"
    and "cl_status (clGetDeviceInfo N (cl_queries w) (priv_device_id p)) = st"
    and "st \<noteq> CL_SUCCESS"
  shows "fst (gocl_device_get_max_work_group_size N w (Some a)) = 0
    \<and> fst (snd (gocl_device_get_max_work_group_size N w (Some a)))
        = Some \<lparr>error_domain = ''compute-api'', error_code = st\<rparr>"
  using assms
  by (simp add: gocl_device_get_max_work_group_size_def gocl_error_check_opencl_def Let_def)

text \<open>
  At \<open>world_dev\<close>, the native layer answering with status -5.
\<close>

theorem query_failure_returns_zero_witness:
  "fst (gocl_device_get_max_work_group_size native_flaky world_dev (Some 1)) = 0
   \<and> fst (snd (gocl_device_get_max_work_group_size native_flaky world_dev (Some 1)))
       = Some \<lparr>error_domain = ''compute-api'', error_code = - 5\<rparr>"
proof -
  have z: "priv_max_work_group_size \<lparr>priv_context = Some 0, priv_device_id = Some 7,
                 priv_max_work_group_size = 0, priv_queue = None\<rparr> = 0"
    by simp
  have s: "cl_status (clGetDeviceInfo native_flaky (cl_queries world_dev)
             (priv_device_id \<lparr>priv_context = Some 0, priv_device_id = Some 7,
                 priv_max_work_group_size = 0, priv_queue = None\<rparr>)) = - 5"
    by (simp add: example_defs)
  have n: "(- 5 :: cl_int) \<noteq> CL_SUCCESS" by simp
  show ?thesis by (rule query_failure_returns_zero [OF world_dev_device z s n])
qed

subsection \<open>C5: the default queue is constructed once\<close>



subsection \<open>C6: the context field over the life of a device\<close>

text \<open>
  Claim C6 as stated: the context field of a valid device is never \<^verbatim>\<open>NULL\<close> and never
  reassigned after construction. On the code, a device constructed without a context
  (the property is given \<^verbatim>\<open>NULL\<close>) is a valid instance whose \<^verbatim>\<open>get_context\<close> is \<^verbatim>\<open>NULL\<close>,
  and \<^verbatim>\<open>gocl_device_dispose\<close> assigns \<^verbatim>\<open>NULL\<close> to the field of a device that stays a
  valid instance.
\<close>

theorem context_field_can_be_null:
  "g_object_new_GoclDevice world_ctx None (Some 7) = Inr (1, world_detached)
   \<and> gocl_device_dispose world_dev 1 = Inr world_detached
   \<and> GOCL_IS_DEVICE world_detached (Some 1)
   \<and> gocl_device_get_context world_detached (Some 1) = None"
  using world_detached_constructed world_dev_disposed
  by (simp add: gocl_device_get_context_def store_defs example_defs)

text \<open>
  Claim C6 as amended: the context field is assigned at construction and by nothing a
  client can call afterwards short of disposal. For a device constructed with a live
  context, after any sequence of calls of the four public functions, of \<^verbatim>\<open>g_object_get\<close>
  and of \<^verbatim>\<open>g_object_set\<close> (which GObject refuses for the construct-only properties), the
  device is still valid and \<^verbatim>\<open>get_context\<close> returns that same context.
\<close>

theorem context_field_set_at_construction_only:
  assumes "heap_at w c = Some ob"
    and "g_object_new_GoclDevice w (Some c) dev = Inr (d, w0)"
  shows "\<exists>w1. do_calls N w0 d cs = Inr w1
     \<and> GOCL_IS_DEVICE w1 (Some d)
     \<and> gocl_device_get_context w1 (Some d) = Some c"
proof -
  have c: "c < length (heap w)" using assms(1) by (rule heap_at_SomeD)
  then have ne: "Some c \<noteq> Some (length (heap w))" by simp
  from g_object_new_GoclDevice_total [of w "Some c" dev] ne held_live [OF assms(1)] assms(2)
  have d0: "device_at w0 d = Some \<lparr>priv_context = Some c, priv_device_id = dev,
                 priv_max_work_group_size = 0, priv_queue = None\<rparr>"
    by auto
  from do_calls_keep_context [OF d0, of N cs]
  show ?thesis
    by (auto simp: GOCL_IS_DEVICE_def gocl_device_get_context_def)
qed

text \<open>
  At \<open>world_dev\<close>, constructed from \<open>world_ctx\<close>, for a trace that tries to clear the
  property and then fills both caches.
\<close>

theorem context_field_set_at_construction_only_witness:
  "\<exists>w1. do_calls native_ok world_dev 1
           [Call_set_property PROP_CONTEXT (G_value_object None),
            Call_get_max_work_group_size, Call_get_default_queue,
            Call_get_property PROP_CONTEXT, Call_get_context] = Inr w1
     \<and> GOCL_IS_DEVICE w1 (Some 1)
     \<and> gocl_device_get_context w1 (Some 1) = Some 0"
proof -
  have "heap_at world_ctx 0 = Some \<lparr>ref_count = 1, inst = Context_instance\<rparr>"
    by (simp add: heap_at_def world_ctx_def)
  then show ?thesis
    using world_dev_constructed by (rule context_field_set_at_construction_only)
qed

subsection \<open>C7: devices looked up by index\<close>



subsection \<open>C8: the cached size is zero until a query succeeds\<close>

text \<open>
  Claim C8 as stated, for every device and whatever the native layer does: the cached
  field is zero exactly when no query has succeeded yet. The field holds whatever the
  native call stored. Under a native layer that reports success with size zero the
  first query succeeds (the call reports no error) and the field is zero afterwards;
  under one that stores 7 and then reports failure no query has succeeded (the call
  reports the error) and the field is 7.
\<close>

theorem cached_size_not_tied_to_success:
  "first_success native_zero (Some 7) 0 1 = Some 0
   \<and> fst (snd (gocl_device_get_max_work_group_size native_zero world_dev (Some 1))) = None
   \<and> cached_size (get_size_repeatedly native_zero world_dev (Some 1) 1) 1 = 0
   \<and> first_success native_scribble (Some 7) 0 1 = None
   \<and> fst (snd (gocl_device_get_max_work_group_size native_scribble world_dev (Some 1)))
       = Some \<lparr>error_domain = ''compute-api'', error_code = - 5\<rparr>
   \<and> cached_size (get_size_repeatedly native_scribble world_dev (Some 1) 1) 1 = 7"
  by (simp add: cached_size_def gocl_device_get_max_work_group_size_def
        gocl_error_check_opencl_def store_defs example_defs)

text \<open>
  Claim C8 as amended: provided the native layer stores a size exactly when it reports
  success and never stores zero, the cached field of a device after \<open>n\<close> calls of
  \<^verbatim>\<open>get_max_work_group_size\<close> following its construction is zero exactly when none of the
  native queries made so far has succeeded (in particular at construction, \<open>n = 0\<close>),
  and equals the value of the first successful query from then on.
\<close>

theorem cached_size_zero_until_first_success:
  assumes "g_object_new_GoclDevice w ctx dev = Inr (d, w0)"
    and "native_conforms N dev"
  shows "cached_size (get_size_repeatedly N w0 (Some d) n) d
       = (case first_success N dev (cl_queries w0) n of
            None \<Rightarrow> 0
          | Some k \<Rightarrow> reply_value (clGetDeviceInfo N k dev))
    \<and> (cached_size (get_size_repeatedly N w0 (Some d) n) d = 0)
       = (first_success N dev (cl_queries w0) n = None)"
proof -
  from g_object_new_GoclDevice_total [of w ctx dev] assms(1)
  obtain cx where dev0: "device_at w0 d = Some \<lparr>priv_context = cx, priv_device_id = dev,
       priv_max_work_group_size = 0, priv_queue = None\<rparr>"
    by auto
  from cached_size_after_queries [OF dev0, of N n] assms(2)
  have eq: "cached_size (get_size_repeatedly N w0 (Some d) n) d
       = (case first_success N dev (cl_queries w0) n of
            None \<Rightarrow> 0
          | Some k \<Rightarrow> reply_value (clGetDeviceInfo N k dev))"
    by (simp cong: option.case_cong)
  show ?thesis
  proof (cases "first_success N dev (cl_queries w0) n")
    case None
    with eq show ?thesis by simp
  next
    case (Some j)
    from first_success_value_nonzero [OF assms(2) Some] eq Some show ?thesis by simp
  qed
qed

text \<open>
  At \<open>world_dev\<close> under the native layer whose first query fails and whose second
  succeeds with 256: zero at construction, zero after one call, 256 after three.
\<close>

theorem cached_size_zero_until_first_success_witness:
  "cached_size (get_size_repeatedly native_flaky world_dev (Some 1) 0) 1 = 0
   \<and> cached_size (get_size_repeatedly native_flaky world_dev (Some 1) 1) 1 = 0
   \<and> cached_size (get_size_repeatedly native_flaky world_dev (Some 1) 3) 1 = 256"
proof -
  have c: "cl_queries world_dev = 0" by (simp add: world_dev_def)
  have f0: "first_success native_flaky (Some 7) 0 0 = None" by simp
  have f1: "first_success native_flaky (Some 7) 0 1 = None"
    by (simp add: native_flaky_def)
  have f3: "first_success native_flaky (Some 7) 0 3 = Some 1"
    by (simp add: native_flaky_def numeral_3_eq_3)
  note t = cached_size_zero_until_first_success
             [OF world_dev_constructed native_flaky_conforms, unfolded c]
  from t [of 0] t [of 1] t [of 3] show ?thesis
    unfolding f0 f1 f3 by (simp add: reply_value_def native_flaky_def)
qed

subsection \<open>C9: arguments that are not devices\<close>

text \<open>
  Claim C9: on an argument that is not a valid device (\<^verbatim>\<open>NULL\<close> included),
  \<^verbatim>\<open>gocl_device_get_id\<close> and \<^verbatim>\<open>gocl_device_get_context\<close> return \<^verbatim>\<open>NULL\<close> (they read the
  state and never change it), \<^verbatim>\<open>gocl_device_get_max_work_group_size\<close> returns 0 with no
  error and the state, the count of native queries included, unchanged; and
  \<^verbatim>\<open>gocl_device_get_default_queue\<close> has no such check and goes on where the others
  return. On \<^verbatim>\<open>NULL\<close> or a pointer to no live object it reads through the invalid pointer.
  On a live instance of another class it works on that instance's private block: it
  returns what lies in the place of the queue field, or, finding \<^verbatim>\<open>NULL\<close> there, runs
  the queue constructor with the instance as the device and stores the result in the
  instance's private block.
\<close>

theorem invalid_instance_guards:
  assumes "\<not> GOCL_IS_DEVICE w self"
  shows "gocl_device_get_id w self = None
    \<and> gocl_device_get_context w self = None
    \<and> gocl_device_get_max_work_group_size N w self = (0, None, w)
    \<and> gocl_device_get_default_queue N w self
        = (case self of
             None \<Rightarrow> Inl Invalid_pointer
           | Some a \<Rightarrow>
               (case heap_at w a of
                  None \<Rightarrow> Inl Invalid_pointer
                | Some ob \<Rightarrow>
                    (case priv_queue (foreign_priv w a) of
                       Some q \<Rightarrow> Inr (Some q, None, w)
                     | None \<Rightarrow>
                         (case g_initable_new_GoclQueue N w a of
                            (q, err, w1) \<Rightarrow>
                              Inr (q, err,
                                   w1\<lparr>foreign_priv :=
                                         (foreign_priv w)
                                           (a := (foreign_priv w a)\<lparr>priv_queue := q\<rparr>)\<rparr>)))))"
proof (cases self)
  case None
  then show ?thesis
    by (simp add: gocl_device_get_id_def gocl_device_get_context_def
          gocl_device_get_max_work_group_size_def gocl_device_get_default_queue_def)
next
  case (Some a)
  with assms have nodev: "device_at w a = None"
    by (simp add: GOCL_IS_DEVICE_def)
  have guarded: "gocl_device_get_id w self = None
    \<and> gocl_device_get_context w self = None
    \<and> gocl_device_get_max_work_group_size N w self = (0, None, w)"
    using Some nodev
    by (simp add: gocl_device_get_id_def gocl_device_get_context_def
          gocl_device_get_max_work_group_size_def)
  show ?thesis
  proof (cases "heap_at w a")
    case None
    with guarded Some show ?thesis
      by (simp add: gocl_device_get_default_queue_dead)
  next
    case (Some ob)
    with guarded \<open>self = Some a\<close> show ?thesis
      by (simp add: gocl_device_get_default_queue_foreign [OF Some nodev])
  qed
qed

text \<open>
  At \<open>world_ctx\<close>. For the context at address 0 the three guarded functions return at
  their check, while \<^verbatim>\<open>gocl_device_get_default_queue\<close> constructs a queue at address 1
  for the context and writes the pointer into the context's private block. For
  \<^verbatim>\<open>NULL\<close> it reads through the null pointer.
\<close>

theorem invalid_instance_guards_witness:
  "\<not> GOCL_IS_DEVICE world_ctx (Some 0)
   \<and> gocl_device_get_id world_ctx (Some 0) = None
   \<and> gocl_device_get_context world_ctx (Some 0) = None
   \<and> gocl_device_get_max_work_group_size native_ok world_ctx (Some 0) = (0, None, world_ctx)
   \<and> gocl_device_get_default_queue native_ok world_ctx (Some 0)
       = Inr (Some 1, None, world_ctx_queue)
   \<and> gocl_device_get_max_work_group_size native_ok world_ctx None = (0, None, world_ctx)
   \<and> gocl_device_get_default_queue native_ok world_ctx None = Inl Invalid_pointer"
proof -
  have a: "\<not> GOCL_IS_DEVICE world_ctx (Some 0)"
    by (simp add: store_defs world_ctx_def)
  have b: "\<not> GOCL_IS_DEVICE world_ctx None"
    by (simp add: GOCL_IS_DEVICE_def)
  have h: "heap_at world_ctx 0 = Some \<lparr>ref_count = 1, inst = Context_instance\<rparr>"
    by (simp add: heap_at_def world_ctx_def)
  have f: "priv_queue (foreign_priv world_ctx 0) = None"
    by (simp add: example_defs)
  have r: "(case g_initable_new_GoclQueue native_ok world_ctx 0 of
              (q, err, w1) \<Rightarrow>
                Inr (q, err,
                     w1\<lparr>foreign_priv :=
                           (foreign_priv world_ctx)
                             (0 := (foreign_priv world_ctx 0)\<lparr>priv_queue := q\<rparr>)\<rparr>))
           = (Inr (Some 1, None, world_ctx_queue)
               :: fault + (gpointer \<times> GError option \<times> world))"
    by (simp add: g_initable_new_GoclQueue_def g_object_alloc_def example_defs)
  from invalid_instance_guards [OF a, of native_ok] invalid_instance_guards [OF b, of native_ok] a
  show ?thesis
    by (simp add: h f r)
qed

subsection \<open>C10: disposal releases each reference once\<close>

text \<open>
  Claim C10: disposing of a device (whose fields do not point at the device itself) sets
  the context and queue fields to \<^verbatim>\<open>NULL\<close> and takes exactly one reference from the
  context and one from the cached queue, where the field was not \<^verbatim>\<open>NULL\<close>, and none from
  any other object; disposing again returns the same state, so nothing is released twice.
\<close>

theorem dispose_releases_once:
  assumes "device_at w a = Some p"
    and "priv_context p \<noteq> Some a"
    and "priv_queue p \<noteq> Some a"
  shows "\<exists>w1. gocl_device_dispose w a = Inr w1
     \<and> device_at w1 a = Some (p\<lparr>priv_context := None, priv_queue := None\<rparr>)
     \<and> (\<forall>b. obj_refs w1 b =
            obj_refs w b - (if priv_context p = Some b then 1 else 0)
                         - (if priv_queue p = Some b then 1 else 0))
     \<and> gocl_device_dispose w1 a = Inr w1"
  using gocl_device_dispose_effect [OF assms] by blast

text \<open>
  At \<open>world_queue\<close>: the context goes from two references to one, the queue from one
  to none, and the second disposal changes nothing.
\<close>

theorem dispose_releases_once_witness:
  "\<exists>w1. gocl_device_dispose world_queue 1 = Inr w1
     \<and> gocl_device_get_context w1 (Some 1) = None
     \<and> device_at w1 1 = Some \<lparr>priv_context = None, priv_device_id = Some 7,
                                 priv_max_work_group_size = 0, priv_queue = None\<rparr>
     \<and> obj_refs world_queue 0 = 2 \<and> obj_refs w1 0 = 1
     \<and> obj_refs world_queue 2 = 1 \<and> obj_refs w1 2 = 0
     \<and> gocl_device_dispose w1 1 = Inr w1"
proof -
  let ?p = "\<lparr>priv_context = Some 0, priv_device_id = Some 7,
             priv_max_work_group_size = 0, priv_queue = Some 2\<rparr>"
  have d: "device_at world_queue 1 = Some ?p"
    by (simp add: store_defs example_defs)
  have r: "obj_refs world_queue 0 = 2" "obj_refs world_queue 2 = 1"
    by (simp_all add: store_defs example_defs)
  from dispose_releases_once [OF d]
  obtain w1 where "gocl_device_dispose world_queue 1 = Inr w1"
    "device_at w1 1 = Some (?p\<lparr>priv_context := None, priv_queue := None\<rparr>)"
    "\<forall>b. obj_refs w1 b =
            obj_refs world_queue b - (if priv_context ?p = Some b then 1 else 0)
                         - (if priv_queue ?p = Some b then 1 else 0)"
    "gocl_device_dispose w1 1 = Inr w1"
    by auto
  with r show ?thesis
    by (intro exI [of _ w1]) (simp add: gocl_device_get_context_def)
qed

end
